theory Spec2Isabelle
  imports Main "HOL-Library.Word"
begin

section \<open>Go run-time values shared by the models\<close>

text \<open>
  A Go function either returns or panics. A run-time panic is the left injection of the
  result, so that every indexing fault of the source is a branch of the model.
\<close>

datatype fault = IndexOutOfRange nat nat

type_synonym byte = "8 word"

text \<open>\<^verbatim>\<open>xs[i]\<close> on a Go slice: a fault carrying the index and the length when out of range.\<close>

definition index :: "'a list \<Rightarrow> nat \<Rightarrow> fault + 'a" where
  "index xs i = (if i < length xs then Inr (xs ! i) else Inl (IndexOutOfRange i (length xs)))"

text \<open>
  \<^verbatim>\<open>strings.Split(s, sep)\<close> for a one-character separator, the only way server.go calls it
  (\<^verbatim>\<open>":"\<close>): the pieces between the separators, one more piece than there are separators.
\<close>

fun Split :: "string \<Rightarrow> char \<Rightarrow> string list" where
  "Split [] sep = [[]]"
| "Split (c # cs) sep =
     (if c = sep then [] # Split cs sep
      else (case Split cs sep of [] \<Rightarrow> [[c]] | piece # pieces \<Rightarrow> (c # piece) # pieces))"

text \<open>\<^verbatim>\<open>strconv.Itoa\<close>: decimal digits, a minus sign for a negative number.\<close>

fun digits :: "nat \<Rightarrow> string" where
  "digits n = (if n < 10 then [''0123456789'' ! n] else digits (n div 10) @ [''0123456789'' ! (n mod 10)])"

definition Itoa :: "int \<Rightarrow> string" where
  "Itoa i = (if i < 0 then CHR ''-'' # digits (nat (- i)) else digits (nat i))"

text \<open>
  \<^verbatim>\<open>net.IP\<close> is a byte slice. \<^verbatim>\<open>To4\<close> is non-nil for a 4-byte address and for a 16-byte
  address with the IPv4-in-IPv6 prefix; \<^verbatim>\<open>String\<close> of such an address is dotted decimal.
\<close>

definition To4 :: "byte list \<Rightarrow> byte list option" where
  "To4 ip =
     (if length ip = 4 then Some ip
      else if length ip = 16 \<and> take 10 ip = replicate 10 0 \<and> ip ! 10 = 0xff \<and> ip ! 11 = 0xff
      then Some (drop 12 ip)
      else None)"

definition dotted :: "byte list \<Rightarrow> string" where
  "dotted p4 =
     digits (unat (p4 ! 0)) @ ''.'' @ digits (unat (p4 ! 1)) @ ''.'' @
     digits (unat (p4 ! 2)) @ ''.'' @ digits (unat (p4 ! 3))"

section \<open>Server life cycle (server.go)\<close>

datatype ServerStatus = Stopped | Starting | Running

text \<open>\<^verbatim>\<open>DefaultShutdownTimeout = time.Second * 10\<close>, a \<^verbatim>\<open>time.Duration\<close> in nanoseconds.\<close>

definition DefaultShutdownTimeout :: int where
  "DefaultShutdownTimeout = 1000000000 * 10"

text \<open>
  Every \<^verbatim>\<open>errors.New\<close> of server.go is one constructor; the argument is the text the
  source appends to the fixed message (the endpoint, or the address that was refused).
  \<^verbatim>\<open>LoadError\<close> is whatever \<^verbatim>\<open>tls.LoadX509KeyPair\<close> returned.
\<close>

datatype error =
    InvalidServerIP "byte list"
  | AlreadyRunningOrStarting string
  | AlreadyRunning string
  | NoCertificate
  | AlreadyStopped string
  | LoadError string

text \<open>
  The goroutine started by \<^verbatim>\<open>StartHTTP\<close>/\<^verbatim>\<open>StartHTTPS\<close>: spawned and waiting for the lock,
  or inside \<^verbatim>\<open>ListenAndServe\<close>/\<^verbatim>\<open>ListenAndServeTLS\<close>, or absent.
\<close>

datatype protocol = HTTP | HTTPS

datatype accept_loop = NoLoop | Spawned protocol | Listening protocol

text \<open>
  \<^verbatim>\<open>ServerImpl\<close>; \<open>server_Addr\<close> is the field \<^verbatim>\<open>srv.server.Addr\<close> of the embedded
  \<^verbatim>\<open>http.Server\<close>, and so on for the fields of it that server.go reads or writes. A status
  listener is known by a number; \<^verbatim>\<open>notified\<close> is the sequence of calls it received. \<^verbatim>\<open>shutdowns\<close> records each \<^verbatim>\<open>server.Shutdown\<close> with the timeout of its context.
\<close>

record 'h ServerImpl =
  serverStatus :: ServerStatus
  statusListener :: "nat option"
  server_Addr :: string
  server_TLSConfig :: "string option"
  server_ErrorLog :: "nat option"
  server_Handler :: 'h
  shutdownTimeout :: int
  loop :: accept_loop
  notified :: "(nat \<times> ServerStatus \<times> ServerStatus) list"
  shutdowns :: "int list"

type_synonym 'h ServerOpt = "'h ServerImpl \<Rightarrow> fault + (error option \<times> 'h ServerImpl)"

definition ServerAddress :: "string \<Rightarrow> 'h ServerOpt" where
  "ServerAddress address srv = Inr (None, srv\<lparr>server_Addr := address\<rparr>)"

definition ServerIP :: "byte list \<Rightarrow> 'h ServerOpt" where
  "ServerIP ip srv =
     (case To4 ip of
        None \<Rightarrow> Inr (Some (InvalidServerIP ip), srv)
      | Some p4 \<Rightarrow>
          (case index (Split (server_Addr srv) CHR '':'') 1 of
             Inl f \<Rightarrow> Inl f
           | Inr port \<Rightarrow> Inr (None, srv\<lparr>server_Addr := dotted p4 @ '':'' @ port\<rparr>)))"

definition ServerPort :: "int \<Rightarrow> 'h ServerOpt" where
  "ServerPort port srv =
     (case index (Split (server_Addr srv) CHR '':'') 0 of
        Inl f \<Rightarrow> Inl f
      | Inr host \<Rightarrow> Inr (None, srv\<lparr>server_Addr := host @ '':'' @ Itoa port\<rparr>))"

text \<open>
  \<^verbatim>\<open>tls.LoadX509KeyPair\<close> reads the file system; it is the parameter \<open>load\<close>.
\<close>

definition ServerCertificateFile ::
  "(string \<Rightarrow> string \<Rightarrow> string + string) \<Rightarrow> string \<Rightarrow> string \<Rightarrow> 'h ServerOpt" where
  "ServerCertificateFile load certFile keyFile srv =
     (case load certFile keyFile of
        Inl err \<Rightarrow> Inr (Some (LoadError err), srv)
      | Inr cer \<Rightarrow> Inr (None, srv\<lparr>server_TLSConfig := Some cer\<rparr>))"

definition ServerLogger :: "nat \<Rightarrow> 'h ServerOpt" where
  "ServerLogger logger srv = Inr (None, srv\<lparr>server_ErrorLog := Some logger\<rparr>)"

definition ServerListener :: "nat \<Rightarrow> 'h ServerOpt" where
  "ServerListener listener srv = Inr (None, srv\<lparr>statusListener := Some listener\<rparr>)"

text \<open>
  \<^verbatim>\<open>New\<close>: the loop over the options returns \<^verbatim>\<open>nil, err\<close> at the first option that returns
  an error; a panic of an option is a panic of \<^verbatim>\<open>New\<close>.
\<close>

fun apply_options ::
  "'h ServerImpl \<Rightarrow> 'h ServerOpt list \<Rightarrow> fault + ('h ServerImpl option \<times> error option)" where
  "apply_options impl [] = Inr (Some impl, None)"
| "apply_options impl (option # options) =
     (case option impl of
        Inl f \<Rightarrow> Inl f
      | Inr (Some err, _) \<Rightarrow> Inr (None, Some err)
      | Inr (None, impl') \<Rightarrow> apply_options impl' options)"

definition new_impl :: "'h \<Rightarrow> 'h ServerImpl" where
  "new_impl handler =
     \<lparr>serverStatus = Stopped, statusListener = None, server_Addr = [], server_TLSConfig = None,
      server_ErrorLog = None, server_Handler = handler, shutdownTimeout = DefaultShutdownTimeout,
      loop = NoLoop, notified = [], shutdowns = []\<rparr>"

definition New :: "'h \<Rightarrow> 'h ServerOpt list \<Rightarrow> fault + ('h ServerImpl option \<times> error option)" where
  "New handler options = apply_options (new_impl handler) options"

definition Endpoint :: "'h ServerImpl \<Rightarrow> string" where
  "Endpoint srv = ''http'' @ ''://'' @ server_Addr srv"

definition status :: "'h ServerImpl \<Rightarrow> ServerStatus" where
  "status srv = serverStatus srv"

definition IsRunning :: "'h ServerImpl \<Rightarrow> bool" where
  "IsRunning srv = (status srv = Running)"

definition IsStopped :: "'h ServerImpl \<Rightarrow> bool" where
  "IsStopped srv = (status srv = Stopped)"

definition setStatus :: "ServerStatus \<Rightarrow> 'h ServerImpl \<Rightarrow> 'h ServerImpl" where
  "setStatus st srv =
     (let oldStatus = serverStatus srv;
          srv' = srv\<lparr>serverStatus := st\<rparr>
      in case statusListener srv' of
           None \<Rightarrow> srv'
         | Some l \<Rightarrow> srv'\<lparr>notified := notified srv' @ [(l, oldStatus, serverStatus srv')]\<rparr>)"

text \<open>
  Each method runs with the mutex held, so it is one atomic step. The goroutine of a start
  blocks on the mutex until the method has returned; the method leaves it \<open>Spawned\<close>.
\<close>

definition StartHTTP :: "'h ServerImpl \<Rightarrow> error option \<times> 'h ServerImpl" where
  "StartHTTP srv =
     (if status srv \<noteq> Stopped then (Some (AlreadyRunningOrStarting (Endpoint srv)), srv)
      else (None, setStatus Starting (srv\<lparr>loop := Spawned HTTP\<rparr>)))"

definition StartHTTPS :: "'h ServerImpl \<Rightarrow> error option \<times> 'h ServerImpl" where
  "StartHTTPS srv =
     (if status srv \<noteq> Stopped then (Some (AlreadyRunning (Endpoint srv)), srv)
      else if server_TLSConfig srv = None then (Some NoCertificate, srv)
      else (None, setStatus Starting (srv\<lparr>loop := Spawned HTTPS\<rparr>)))"

definition Stop :: "'h ServerImpl \<Rightarrow> error option \<times> 'h ServerImpl" where
  "Stop srv =
     (if status srv = Stopped then (Some (AlreadyStopped (Endpoint srv)), srv)
      else (None, srv\<lparr>shutdowns := shutdowns srv @ [shutdownTimeout srv]\<rparr>))"

text \<open>
  The two critical sections of the goroutine: the first sets \<open>Running\<close> and enters
  \<^verbatim>\<open>ListenAndServe\<close>; the second runs when \<^verbatim>\<open>ListenAndServe\<close> has returned and sets \<open>Stopped\<close>.
\<close>

definition loop_begin :: "'h ServerImpl \<Rightarrow> 'h ServerImpl" where
  "loop_begin srv =
     (case loop srv of Spawned p \<Rightarrow> setStatus Running (srv\<lparr>loop := Listening p\<rparr>) | _ \<Rightarrow> srv)"

definition loop_exit :: "'h ServerImpl \<Rightarrow> 'h ServerImpl" where
  "loop_exit srv =
     (case loop srv of Listening p \<Rightarrow> setStatus Stopped (srv\<lparr>loop := NoLoop\<rparr>) | _ \<Rightarrow> srv)"

datatype action = CallStartHTTP | CallStartHTTPS | CallStop | LoopBegin | LoopExit

fun step :: "action \<Rightarrow> 'h ServerImpl \<Rightarrow> 'h ServerImpl" where
  "step CallStartHTTP srv = snd (StartHTTP srv)"
| "step CallStartHTTPS srv = snd (StartHTTPS srv)"
| "step CallStop srv = snd (Stop srv)"
| "step LoopBegin srv = loop_begin srv"
| "step LoopExit srv = loop_exit srv"

section \<open>Requests, responses and handlers\<close>

text \<open>
  A handler acts on the world of one request: the calls the \<^verbatim>\<open>http.ResponseWriter\<close> has
  received, the lines written to the log, and the callbacks and terminal handlers that ran
  (by name). An \<^verbatim>\<open>http.HandlerFunc\<close> takes the world and the request; a \<^verbatim>\<open>Middleware\<close> also
  takes \<^verbatim>\<open>next\<close>, the rest of the chain.
\<close>

datatype rw_call = HeaderSet string string | WriteHeader int | Write string

datatype level = LDebug | LWarn | LError

record world =
  rw :: "rw_call list"
  logs :: "(level \<times> string) list"
  calls :: "string list"

record request =
  reqMethod :: string
  reqURL :: string
  reqProto :: string
  reqRemoteAddr :: string
  reqUserAgent :: string

type_synonym HandlerFunc = "world \<Rightarrow> request \<Rightarrow> world"

type_synonym Middleware = "world \<Rightarrow> request \<Rightarrow> HandlerFunc \<Rightarrow> world"

subsection \<open>The middleware of middleware.go\<close>

definition serviceCallMonitor_ServeHTTP :: "(world \<Rightarrow> world) \<Rightarrow> Middleware" where
  "serviceCallMonitor_ServeHTTP counter w r next = next (counter w) r"

record serviceGatekeeper =
  gatekeeper :: "request \<Rightarrow> bool"
  responseCode :: int
  contentType :: string
  responseMessage :: string
  logMessage :: string

type_synonym ServiceGatekeeperOpt = "serviceGatekeeper \<Rightarrow> serviceGatekeeper"

definition ServiceGatekeeperResponse :: "string \<Rightarrow> ServiceGatekeeperOpt" where
  "ServiceGatekeeperResponse response m = m\<lparr>responseMessage := response\<rparr>"

definition ServiceGatekeeperResponseCode :: "int \<Rightarrow> ServiceGatekeeperOpt" where
  "ServiceGatekeeperResponseCode code m = m\<lparr>responseCode := code\<rparr>"

definition ServiceGatekeeperContentType :: "string \<Rightarrow> ServiceGatekeeperOpt" where
  "ServiceGatekeeperContentType ct m = m\<lparr>contentType := ct\<rparr>"

definition ServiceGatekeeperLogMessage :: "string \<Rightarrow> ServiceGatekeeperOpt" where
  "ServiceGatekeeperLogMessage msg m = m\<lparr>logMessage := msg\<rparr>"

definition ServiceGatekeeperTextResponse :: "string \<Rightarrow> ServiceGatekeeperOpt" where
  "ServiceGatekeeperTextResponse response m =
     m\<lparr>contentType := ''text/plain'', responseMessage := response\<rparr>"

text \<open>\<^verbatim>\<open>json.Marshal\<close> is the parameter \<open>marshal\<close>; \<open>Inl\<close> is its error.\<close>

definition ServiceGatekeeperJSONResponse ::
  "('a \<Rightarrow> string + string) \<Rightarrow> 'a \<Rightarrow> ServiceGatekeeperOpt" where
  "ServiceGatekeeperJSONResponse marshal response m =
     (case marshal response of
        Inl err \<Rightarrow> ServiceGatekeeperTextResponse ''<internal error: response is not JSON format>'' m
      | Inr respJSON \<Rightarrow> m\<lparr>contentType := ''application/json'', responseMessage := respJSON\<rparr>)"

text \<open>\<^verbatim>\<open>http.StatusServiceUnavailable\<close> is 503; the content type and the body start empty.\<close>

definition NewServiceGatekeeper ::
  "(request \<Rightarrow> bool) \<Rightarrow> ServiceGatekeeperOpt list \<Rightarrow> serviceGatekeeper" where
  "NewServiceGatekeeper gk options =
     foldl (\<lambda>g opt. opt g)
       \<lparr>gatekeeper = gk, responseCode = 503, contentType = [], responseMessage = [],
        logMessage = ''service is not available''\<rparr>
       options"

definition write_call :: "rw_call \<Rightarrow> world \<Rightarrow> world" where
  "write_call c w = w\<lparr>rw := rw w @ [c]\<rparr>"

definition log_line :: "level \<Rightarrow> string \<Rightarrow> world \<Rightarrow> world" where
  "log_line l msg w = w\<lparr>logs := logs w @ [(l, msg)]\<rparr>"

definition serviceGatekeeper_ServeHTTP :: "serviceGatekeeper \<Rightarrow> Middleware" where
  "serviceGatekeeper_ServeHTTP g w r next =
     (if \<not> gatekeeper g r then
        (let w1 = log_line LWarn (''api request is not accepted: '' @ logMessage g) w;
             w2 = write_call (HeaderSet ''Content-Type'' (contentType g)) w1;
             w3 = write_call (WriteHeader (responseCode g)) w2
         in if length (responseMessage g) > 0 then write_call (Write (responseMessage g)) w3
            else w3)
      else next w r)"

definition crashHandler_ServeHTTP :: "(world \<Rightarrow> world) \<Rightarrow> Middleware" where
  "crashHandler_ServeHTTP handler w r next = handler (next w r)"

definition serviceRedirect_ServeHTTP :: "HandlerFunc \<Rightarrow> Middleware" where
  "serviceRedirect_ServeHTTP handler w r next = next (handler w r) r"

section \<open>Routes and their normalisation\<close>

text \<open>
  A Go slice is a window on a backing array: the array it points to, where the window
  starts, its length and its capacity. The heap maps each array to its elements. Two
  slices with the same array and overlapping windows share storage.
\<close>

record slice =
  array :: nat
  offset :: nat
  len :: nat
  cap :: nat

type_synonym heap = "nat \<Rightarrow> string list"

definition nil_slice :: slice where
  "nil_slice = \<lparr>array = 0, offset = 0, len = 0, cap = 0\<rparr>"

text \<open>The elements a \<^verbatim>\<open>range\<close> over the slice visits.\<close>

definition elems :: "heap \<Rightarrow> slice \<Rightarrow> string list" where
  "elems h s = take (len s) (drop (offset s) (h (array s)))"

text \<open>\<^verbatim>\<open>s[i] = v\<close>: a fault when \<open>i\<close> is not below the length, else the array is updated.\<close>

definition store :: "heap \<Rightarrow> slice \<Rightarrow> nat \<Rightarrow> string \<Rightarrow> fault + heap" where
  "store h s i v =
     (if i < len s then Inr (h(array s := (h (array s))[offset s + i := v]))
      else Inl (IndexOutOfRange i (len s)))"

text \<open>
  The slice expression \<^verbatim>\<open>s[low:high]\<close> (for \<open>low \<le> high \<le> cap s\<close>) is a new window on the same
  array; \<^verbatim>\<open>s[:]\<close> is \<^verbatim>\<open>s[0:len(s)]\<close>.
\<close>

definition reslice :: "slice \<Rightarrow> nat \<Rightarrow> nat \<Rightarrow> slice" where
  "reslice s low high =
     \<lparr>array = array s, offset = offset s + low, len = high - low, cap = cap s - low\<rparr>"

definition slice_all :: "slice \<Rightarrow> slice" where
  "slice_all s = reslice s 0 (len s)"

record Route =
  Name :: string
  Method :: string
  Path :: string
  Handler :: HandlerFunc
  Include :: slice
  Exclude :: slice

text \<open>
  \<^verbatim>\<open>updateRoutes\<close>: \<open>routes2\<close> starts as a copy of the route structs (\<^verbatim>\<open>make\<close> and \<^verbatim>\<open>copy\<close>), and
  the loop over the indices updates \<open>routes2[i]\<close> from \<open>routes[i]\<close>.
\<close>

definition updateRoutes_body :: "Route list \<Rightarrow> Route list \<Rightarrow> nat \<Rightarrow> Route list" where
  "updateRoutes_body routes routes2 i =
     (let routes2a =
            (if Method (routes ! i) = [] then routes2[i := (routes2 ! i)\<lparr>Method := ''GET''\<rparr>]
             else routes2);
          routes2b = routes2a[i := (routes2a ! i)\<lparr>Include := slice_all (Include (routes ! i))\<rparr>]
      in routes2b[i := (routes2b ! i)\<lparr>Exclude := slice_all (Exclude (routes ! i))\<rparr>])"

definition updateRoutes :: "Route list \<Rightarrow> Route list" where
  "updateRoutes routes = foldl (updateRoutes_body routes) routes [0..<length routes]"

section \<open>The router built by Make\<close>

text \<open>
  The values \<^verbatim>\<open>Make\<close> builds with gorilla/mux and negroni. A route of a router has a path
  template (exact or prefix, already joined with the template of the router it was created
  on), the methods it accepts, its name, the error the router recorded when the route was
  built, and a handler or a subrouter. A negroni chain is a list of middleware; \<open>Wrap\<close> is
  \<^verbatim>\<open>negroni.Wrap\<close>, which calls an \<^verbatim>\<open>http.Handler\<close> and then the rest of the chain.
\<close>

datatype template = TPath string | TPathPrefix string

datatype mux_error = PathMustStartWithSlash string

datatype handler =
    HandlerFunc HandlerFunc
  | Negroni "nhandler list"
  | Mux router
  | StripPrefixFileServer string string
and nhandler = Mw Middleware | Wrap handler
and router = Router "route list" "handler option"
and route = Route template "string list" string "mux_error option" target
and target = Handle handler | Subrouter router

text \<open>
  What gorilla/mux does with a request is outside the repository; the model takes from it
  the matching of a template and a method list against a request and the serving of a
  directory, as parameters, and keeps the order of the routes, the nesting of subrouters,
  the routes that carry an error (they never match) and the not-found handlers.
\<close>

record library =
  matches :: "template \<Rightarrow> string list \<Rightarrow> request \<Rightarrow> bool"
  file_server :: "string \<Rightarrow> string \<Rightarrow> HandlerFunc"

text \<open>\<^verbatim>\<open>http.NotFound\<close>, the reply of a router without a not-found handler.\<close>

definition http_NotFound :: HandlerFunc where
  "http_NotFound w r =
     write_call (Write (''404 page not found'' @ [CHR 0x0A]))
       (write_call (WriteHeader 404)
         (write_call (HeaderSet ''X-Content-Type-Options'' ''nosniff'')
           (write_call (HeaderSet ''Content-Type'' ''text/plain; charset=utf-8'') w)))"

fun serve :: "library \<Rightarrow> handler \<Rightarrow> world \<Rightarrow> request \<Rightarrow> world"
  and run_chain :: "library \<Rightarrow> nhandler list \<Rightarrow> world \<Rightarrow> request \<Rightarrow> world"
  and serve_router :: "library \<Rightarrow> router \<Rightarrow> world \<Rightarrow> request \<Rightarrow> world option"
  and serve_routes :: "library \<Rightarrow> route list \<Rightarrow> world \<Rightarrow> request \<Rightarrow> world option"
  where
  "serve L (HandlerFunc f) w r = f w r"
| "serve L (Negroni hs) w r = run_chain L hs w r"
| "serve L (Mux rt) w r =
     (case serve_router L rt w r of Some w' \<Rightarrow> w' | None \<Rightarrow> http_NotFound w r)"
| "serve L (StripPrefixFileServer p dir) w r = file_server L p dir w r"
| "run_chain L [] w r = w"
| "run_chain L (Mw m # hs) w r = m w r (\<lambda>w' r'. run_chain L hs w' r')"
| "run_chain L (Wrap h # hs) w r = run_chain L hs (serve L h w r) r"
| "serve_router L (Router rts nf) w r =
     (case serve_routes L rts w r of
        Some w' \<Rightarrow> Some w'
      | None \<Rightarrow> (case nf of None \<Rightarrow> None | Some h \<Rightarrow> Some (serve L h w r)))"
| "serve_routes L [] w r = None"
| "serve_routes L (Route t ms n e (Handle h) # rts) w r =
     (if e = None \<and> matches L t ms r then Some (serve L h w r) else serve_routes L rts w r)"
| "serve_routes L (Route t ms n e (Subrouter rt) # rts) w r =
     (if e = None \<and> matches L t ms r then
        (case serve_router L rt w r of
           Some w' \<Rightarrow> Some w'
         | None \<Rightarrow> serve_routes L rts w r)
      else serve_routes L rts w r)"

section \<open>The service factory\<close>

text \<open>
  The three tiers are Go maps from a name to a middleware. A registered middleware is a
  value that can be called, so \<open>None\<close> stands both for a missing key and for the \<^verbatim>\<open>nil\<close> that
  \<^verbatim>\<open>f.always[name]\<close> yields for it.
\<close>

record gorillaMuxFactory =
  always :: "string \<rightharpoonup> Middleware"
  defaults :: "string \<rightharpoonup> Middleware"
  available :: "string \<rightharpoonup> Middleware"

definition FactoryForGorillaMux :: gorillaMuxFactory where
  "FactoryForGorillaMux = \<lparr>always = Map.empty, defaults = Map.empty, available = Map.empty\<rparr>"

definition Always :: "string \<Rightarrow> Middleware \<Rightarrow> gorillaMuxFactory \<Rightarrow> gorillaMuxFactory" where
  "Always name middleware f = f\<lparr>always := (always f)(name \<mapsto> middleware)\<rparr>"

definition Default :: "string \<Rightarrow> Middleware \<Rightarrow> gorillaMuxFactory \<Rightarrow> gorillaMuxFactory" where
  "Default name middleware f = f\<lparr>defaults := (defaults f)(name \<mapsto> middleware)\<rparr>"

definition Available :: "string \<Rightarrow> Middleware \<Rightarrow> gorillaMuxFactory \<Rightarrow> gorillaMuxFactory" where
  "Available name middleware f = f\<lparr>available := (available f)(name \<mapsto> middleware)\<rparr>"

text \<open>
  A \<^verbatim>\<open>range\<close> over a Go map visits every key once, in an order the run time chooses anew for
  each loop. The order of each loop of \<^verbatim>\<open>Make\<close> is an input of the model: one for the
  always-tier, one for the route table, and one for the default-tier at each route (given
  the prefix and the index of the route).
\<close>

record schedule =
  always_order :: "string list"
  prefix_order :: "string list"
  defaults_order :: "string \<Rightarrow> nat \<Rightarrow> string list"

definition range_map :: "(string \<rightharpoonup> 'v) \<Rightarrow> string list \<Rightarrow> (string \<times> 'v) list" where
  "range_map m ks = List.map_filter (\<lambda>k. map_option (Pair k) (m k)) ks"

definition visits :: "(string \<rightharpoonup> 'v) \<Rightarrow> string list \<Rightarrow> bool" where
  "visits m ks = (distinct ks \<and> set ks = dom m)"

text \<open>\<^verbatim>\<open>NotFoundHandler\<close> and \<^verbatim>\<open>APIListingHandler\<close>; 404 is \<^verbatim>\<open>http.StatusNotFound\<close>.\<close>

definition NotFoundHandler :: HandlerFunc where
  \<open>NotFoundHandler w r =
     write_call (Write ''{"Error": "API Not Supported"}'')
       (write_call (WriteHeader 404)
         (log_line LDebug
            (''rest api = '' @ reqMethod r @ '' '' @ reqURL r @ '', http=404, proto='' @ reqProto r @
             '', sender='' @ reqRemoteAddr r @ '', agent='' @ reqUserAgent r) w))\<close>

definition APIListingHandler :: HandlerFunc where
  "APIListingHandler w r = write_call (WriteHeader 404) w"

text \<open>
  gorilla/mux joins the template of a route created on a subrouter with the template of
  the route the subrouter hangs on, after trimming the slashes at its end, and records an
  error on a route whose own template is not empty and does not start with a slash.
\<close>

definition trim_slashes :: "string \<Rightarrow> string" where
  "trim_slashes tpl = rev (dropWhile (\<lambda>c. c = CHR ''/'') (rev tpl))"

definition template_error :: "string \<Rightarrow> mux_error option" where
  "template_error tpl =
     (if tpl \<noteq> [] \<and> hd tpl \<noteq> CHR ''/'' then Some (PathMustStartWithSlash tpl) else None)"

subsection \<open>The middleware of one route\<close>

text \<open>
  The loop over the default-tier appends every middleware whose name is not excluded; the
  loop over \<^verbatim>\<open>route.Include\<close> appends from the available-tier and logs every name it skips.
  (The map \<^verbatim>\<open>included\<close> that the source fills between the two is never read.)
\<close>

fun add_defaults ::
  "(string \<times> Middleware) list \<Rightarrow> string set \<Rightarrow> nhandler list \<Rightarrow> nhandler list" where
  "add_defaults [] excluded middlewares = middlewares"
| "add_defaults ((name, middleware) # rest) excluded middlewares =
     (if name \<notin> excluded then add_defaults rest excluded (middlewares @ [Mw middleware])
      else add_defaults rest excluded middlewares)"

fun add_included ::
  "gorillaMuxFactory \<Rightarrow> string set \<Rightarrow> string list \<Rightarrow>
   nhandler list \<times> (level \<times> string) list \<Rightarrow> nhandler list \<times> (level \<times> string) list" where
  "add_included f excluded [] acc = acc"
| "add_included f excluded (name # names) (middlewares, lg) =
     (if name \<in> excluded then
        add_included f excluded names
          (middlewares,
           lg @ [(LError, ''middleware ['' @ name @
                    ''] is present in <included> and <excluded> list, skipping'')])
      else if always f name \<noteq> None then
        add_included f excluded names
          (middlewares,
           lg @ [(LWarn, ''middleware ['' @ name @ ''] is unconditionally included, skipping'')])
      else if defaults f name \<noteq> None then
        add_included f excluded names
          (middlewares,
           lg @ [(LWarn, ''middleware ['' @ name @ ''] is included by default, skipping'')])
      else
        (case available f name of
           None \<Rightarrow>
             add_included f excluded names
               (middlewares,
                lg @ [(LError, ''middleware ['' @ name @ ''] is not registered, skipping'')])
         | Some middleware \<Rightarrow>
             add_included f excluded names (middlewares @ [Mw middleware], lg)))"

text \<open>
  The subrouter of a route holds the route's handler, unless the route is named
  \<^verbatim>\<open>"Apis"\<close>: then nothing is registered on it (and a file server is mounted on the outer router).
\<close>

definition route_subrouter :: "string \<Rightarrow> Route \<Rightarrow> router" where
  "route_subrouter base route =
     (if Name route = ''Apis'' then Router [] None
      else Router
             [Route (TPath (base @ ''/'' @ Path route)) [Method route] (Name route)
                (template_error (''/'' @ Path route)) (Handle (HandlerFunc (Handler route)))]
             None)"

definition route_middlewares ::
  "gorillaMuxFactory \<Rightarrow> string list \<Rightarrow> heap \<Rightarrow> string \<Rightarrow> Route \<Rightarrow>
   nhandler list \<times> (level \<times> string) list" where
  "route_middlewares f order h base route =
     (let excluded = set (elems h (Exclude route));
          middlewares = add_defaults (range_map (defaults f) order) excluded [];
          (middlewares, lg) = add_included f excluded (elems h (Include route)) (middlewares, [])
      in (middlewares @ [Wrap (Mux (route_subrouter base route))], lg))"

subsection \<open>Make\<close>

text \<open>
  The loop over the routes of one prefix. It adds to the outer router (the file server of
  a route named \<^verbatim>\<open>"Apis"\<close>) and to the router of the prefix (for each route, the route its
  subrouter hangs on and the route bound to \<^verbatim>\<open>always.With(middlewares...)\<close>), and it logs.
\<close>

fun register_routes ::
  "gorillaMuxFactory \<Rightarrow> (nat \<Rightarrow> string list) \<Rightarrow> heap \<Rightarrow> nhandler list \<Rightarrow> string \<Rightarrow> nat \<Rightarrow>
   Route list \<Rightarrow> route list \<times> route list \<times> (level \<times> string) list \<Rightarrow>
   route list \<times> route list \<times> (level \<times> string) list" where
  "register_routes f order h alwaysHandlers base i [] acc = acc"
| "register_routes f order h alwaysHandlers base i (route # routes) (outer, inner, lg) =
     (let outer' =
            (if Name route = ''Apis'' then
               outer @ [Route (TPathPrefix ''/api/'') [] [] None
                          (Handle (StripPrefixFileServer ''/api/'' ''/milkyway/swagger-ui/''))]
             else outer);
          (middlewares, lg') = route_middlewares f (order i) h base route;
          inner' =
            inner @
            [Route (TPath (base @ ''/'')) [] [] None (Subrouter (route_subrouter base route)),
             Route (TPath (base @ ''/'' @ Path route)) [Method route] []
               (template_error (''/'' @ Path route))
               (Handle (Negroni (alwaysHandlers @ middlewares)))]
      in register_routes f order h alwaysHandlers base (Suc i) routes (outer', inner', lg @ lg'))"

text \<open>
  The loop over the prefixes of the route table. The state is the outer router (its routes
  and its not-found handler) and the log.
\<close>

fun register_prefixes ::
  "gorillaMuxFactory \<Rightarrow> (string \<Rightarrow> nat \<Rightarrow> string list) \<Rightarrow> heap \<Rightarrow> nhandler list \<Rightarrow>
   (string \<times> Route list) list \<Rightarrow> route list \<times> handler option \<times> (level \<times> string) list \<Rightarrow>
   route list \<times> handler option \<times> (level \<times> string) list" where
  "register_prefixes f order h alwaysHandlers [] acc = acc"
| "register_prefixes f order h alwaysHandlers ((urlPrefix, routes) # rest) (outer, nf, lg) =
     (let base = trim_slashes (''/'' @ urlPrefix);
          notFound = Negroni (alwaysHandlers @ [Wrap (HandlerFunc NotFoundHandler)]);
          listing = Route (TPath (base @ ''/'')) [] [] None (Handle (HandlerFunc APIListingHandler));
          updatedRoutes = updateRoutes routes;
          (apis, inner, lg') =
            register_routes f (order urlPrefix) h alwaysHandlers base 0 updatedRoutes
              ([], [listing], []);
          routerWithPrefix = Router inner (Some notFound);
          outer' =
            outer @
            [Route (TPathPrefix (''/'' @ urlPrefix)) [] [] None (Subrouter routerWithPrefix),
             Route (TPath urlPrefix) [] [] (template_error urlPrefix)
               (Handle (Negroni (alwaysHandlers @ [Wrap (Mux routerWithPrefix)])))] @
            apis
      in register_prefixes f order h alwaysHandlers rest (outer', Some notFound, lg @ lg'))"

text \<open>
  \<^verbatim>\<open>Make\<close> returns the outer router and its error, which is always \<^verbatim>\<open>nil\<close>; the third component
  is what it wrote to the log.
\<close>

definition Make ::
  "gorillaMuxFactory \<Rightarrow> schedule \<Rightarrow> heap \<Rightarrow> (string \<rightharpoonup> Route list) \<Rightarrow>
   handler \<times> error option \<times> (level \<times> string) list" where
  "Make f sched h routeMap =
     (let alwaysHandlers = map (\<lambda>(name, middleware). Mw middleware)
                             (range_map (always f) (always_order sched));
          (outer, nf, lg) =
            register_prefixes f (defaults_order sched) h alwaysHandlers
              (range_map routeMap (prefix_order sched)) ([], None, [])
      in (Mux (Router outer nf), None, lg))"

section \<open>The chain of a route, as the specification describes it\<close>

text \<open>
  The specification describes the chain of a route by names: the names of the default-tier
  that are not excluded, then the names of \<^verbatim>\<open>Include\<close> that are not excluded, are in neither
  the always-tier nor the default-tier, and are registered in the available-tier, then the
  terminal element. Every other name of \<^verbatim>\<open>Include\<close> is skipped with one line in the log. The
  terminal route handler is the wrapped subrouter on which the handler of the route is
  registered under the path, method and name of the route.
\<close>

definition default_names :: "gorillaMuxFactory \<Rightarrow> string list \<Rightarrow> string list \<Rightarrow> string list" where
  "default_names f order Excl = filter (\<lambda>n. defaults f n \<noteq> None \<and> n \<notin> set Excl) order"

definition admitted_names :: "gorillaMuxFactory \<Rightarrow> string list \<Rightarrow> string list \<Rightarrow> string list" where
  "admitted_names f Incl Excl =
     filter (\<lambda>n. n \<notin> set Excl \<and> always f n = None \<and> defaults f n = None \<and> available f n \<noteq> None)
       Incl"

definition skip_line :: "gorillaMuxFactory \<Rightarrow> string list \<Rightarrow> string \<Rightarrow> (level \<times> string) list" where
  "skip_line f Excl n =
     (if n \<in> set Excl then
        [(LError, ''middleware ['' @ n @ ''] is present in <included> and <excluded> list, skipping'')]
      else if always f n \<noteq> None then
        [(LWarn, ''middleware ['' @ n @ ''] is unconditionally included, skipping'')]
      else if defaults f n \<noteq> None then
        [(LWarn, ''middleware ['' @ n @ ''] is included by default, skipping'')]
      else if available f n = None then
        [(LError, ''middleware ['' @ n @ ''] is not registered, skipping'')]
      else [])"

definition effective_chain ::
  "gorillaMuxFactory \<Rightarrow> string list \<Rightarrow> string list \<Rightarrow> string list \<Rightarrow> nhandler \<Rightarrow> nhandler list" where
  "effective_chain f order Incl Excl terminal =
     map (\<lambda>n. Mw (the (defaults f n))) (default_names f order Excl) @
     map (\<lambda>n. Mw (the (available f n))) (admitted_names f Incl Excl) @
     [terminal]"

definition terminal_route_handler :: "string \<Rightarrow> Route \<Rightarrow> nhandler" where
  "terminal_route_handler base route =
     Wrap (Mux (Router
       [Route (TPath (base @ ''/'' @ Path route)) [Method route] (Name route) None
          (Handle (HandlerFunc (Handler route)))]
       None))"

section \<open>Errors recorded by the router\<close>

text \<open>
  gorilla/mux keeps the error of a route on the route (\<^verbatim>\<open>GetError\<close>). These are all the
  errors recorded in a handler, in the order of registration.
\<close>

fun errors_of :: "handler \<Rightarrow> mux_error list"
  and errors_of_chain :: "nhandler list \<Rightarrow> mux_error list"
  and errors_of_router :: "router \<Rightarrow> mux_error list"
  and errors_of_routes :: "route list \<Rightarrow> mux_error list"
  where
  "errors_of (HandlerFunc f) = []"
| "errors_of (Negroni hs) = errors_of_chain hs"
| "errors_of (Mux rt) = errors_of_router rt"
| "errors_of (StripPrefixFileServer p dir) = []"
| "errors_of_chain [] = []"
| "errors_of_chain (Mw m # hs) = errors_of_chain hs"
| "errors_of_chain (Wrap h # hs) = errors_of h @ errors_of_chain hs"
| "errors_of_router (Router rts nf) =
     errors_of_routes rts @ (case nf of None \<Rightarrow> [] | Some h \<Rightarrow> errors_of h)"
| "errors_of_routes [] = []"
| "errors_of_routes (Route t ms n e (Handle h) # rts) =
     (case e of None \<Rightarrow> [] | Some x \<Rightarrow> [x]) @ errors_of h @ errors_of_routes rts"
| "errors_of_routes (Route t ms n e (Subrouter rt) # rts) =
     (case e of None \<Rightarrow> [] | Some x \<Rightarrow> [x]) @ errors_of_router rt @ errors_of_routes rts"

section \<open>Concrete inputs\<close>

text \<open>
  A library whose templates are plain paths: an exact template matches the path equal to
  it, a prefix template the paths that start with it, and a method list the methods in it
  (every method when it is empty). Its file server only records the file it was asked for.
\<close>

fun literal_path :: "template \<Rightarrow> string \<Rightarrow> bool" where
  "literal_path (TPath tpl) p = (p = tpl)"
| "literal_path (TPathPrefix tpl) p = (take (length tpl) p = tpl)"

definition literal :: library where
  "literal =
     \<lparr>matches = (\<lambda>t ms r. literal_path t (reqURL r) \<and> (ms = [] \<or> reqMethod r \<in> set ms)),
      file_server =
        (\<lambda>p dir w r. w\<lparr>calls := calls w @ [''files:'' @ dir @ drop (length p) (reqURL r)]\<rparr>)\<rparr>"

text \<open>The world before a request is served, a request, and a continuation that records its call.\<close>

definition fresh :: world where
  "fresh = \<lparr>rw = [], logs = [], calls = []\<rparr>"

definition get_request :: "string \<Rightarrow> request" where
  "get_request url =
     \<lparr>reqMethod = ''GET'', reqURL = url, reqProto = ''HTTP/1.1'',
      reqRemoteAddr = ''127.0.0.1:50000'', reqUserAgent = ''curl''\<rparr>"

definition probe :: HandlerFunc where
  "probe w r = w\<lparr>calls := calls w @ [''next'']\<rparr>"

text \<open>A call counter (\<^verbatim>\<open>NewServiceCallCounter\<close>) whose callback records a name.\<close>

definition mark :: "string \<Rightarrow> Middleware" where
  "mark name = serviceCallMonitor_ServeHTTP (\<lambda>w. w\<lparr>calls := calls w @ [name]\<rparr>)"

text \<open>A gatekeeper that lets only \<^verbatim>\<open>GET\<close> pass and answers 403 with a text otherwise.\<close>

definition closed_gate :: serviceGatekeeper where
  "closed_gate =
     NewServiceGatekeeper (\<lambda>r. reqMethod r = ''GET'')
       [ServiceGatekeeperResponseCode 403, ServiceGatekeeperTextResponse ''read only'']"

text \<open>
  The route table of main.go: the prefix \<^verbatim>\<open>v1\<close> with the route \<^verbatim>\<open>HealthCheck\<close>, and a factory
  with one always-tier middleware.
\<close>

definition HealthCheck :: HandlerFunc where
  "HealthCheck w r = w\<lparr>calls := calls w @ [''HealthCheck'']\<rparr>"

definition health_route :: Route where
  "health_route =
     \<lparr>Name = ''HealthCheck'', Method = ''GET'', Path = ''healthcheck'', Handler = HealthCheck,
      Include = nil_slice, Exclude = nil_slice\<rparr>"

definition counting_factory :: gorillaMuxFactory where
  "counting_factory = Always ''counter'' (mark ''counter'') FactoryForGorillaMux"

definition one_prefix :: schedule where
  "one_prefix =
     \<lparr>always_order = [''counter''], prefix_order = [''v1''], defaults_order = (\<lambda>p i. [])\<rparr>"

definition v1_table :: "string \<rightharpoonup> Route list" where
  "v1_table = [''v1'' \<mapsto> [health_route]]"

text \<open>A route whose lists are slices of two arrays of the caller, and a route without a method.\<close>

definition caller_heap :: heap where
  "caller_heap = (\<lambda>a. [])(1 := [''auth''], 2 := [''logger''])"

definition caller_route :: Route where
  "caller_route =
     \<lparr>Name = ''HealthCheck'', Method = [], Path = ''healthcheck'', Handler = HealthCheck,
      Include = \<lparr>array = 1, offset = 0, len = 1, cap = 1\<rparr>,
      Exclude = \<lparr>array = 2, offset = 0, len = 1, cap = 1\<rparr>\<rparr>"

text \<open>A factory with middleware in every tier and a route that includes and excludes some.\<close>

definition tiered_factory :: gorillaMuxFactory where
  "tiered_factory =
     Available ''leader'' (mark ''leader'')
       (Available ''auth'' (mark ''auth'')
         (Default ''md5'' (mark ''md5'')
           (Default ''logger'' (mark ''logger'')
             (Always ''crash'' (mark ''crash'') FactoryForGorillaMux))))"

definition tiered_heap :: heap where
  "tiered_heap =
     (\<lambda>a. [])(3 := [''auth'', ''logger'', ''crash'', ''leader'', ''ghost''],
               4 := [''md5'', ''leader''])"

definition tiered_route :: Route where
  "tiered_route =
     \<lparr>Name = ''GetData'', Method = ''GET'', Path = ''getdata'',
      Handler = (\<lambda>w r. w\<lparr>calls := calls w @ [''GetData'']\<rparr>),
      Include = \<lparr>array = 3, offset = 0, len = 5, cap = 5\<rparr>,
      Exclude = \<lparr>array = 4, offset = 0, len = 2, cap = 2\<rparr>\<rparr>"

definition apis_route :: Route where
  "apis_route =
     \<lparr>Name = ''Apis'', Method = ''GET'', Path = ''docs'',
      Handler = (\<lambda>w r. w\<lparr>calls := calls w @ [''ApiDocs'']\<rparr>),
      Include = nil_slice, Exclude = nil_slice\<rparr>"

section \<open>Properties of the server life cycle\<close>

lemma Split_nonempty: "Split s sep \<noteq> []"
  by (induction s) (auto split: list.splits)

lemma Split_no_sep: "sep \<notin> set s \<Longrightarrow> Split s sep = [s]"
  by (induction s) (auto split: list.splits)

lemma Split_sep_length: "sep \<in> set s \<Longrightarrow> 2 \<le> length (Split s sep)"
  by (induction s) (auto split: list.splits simp: Split_nonempty)

lemma setStatus_fields:
  "serverStatus (setStatus st srv) = st"
  "loop (setStatus st srv) = loop srv"
  "server_Addr (setStatus st srv) = server_Addr srv"
  "shutdowns (setStatus st srv) = shutdowns srv"
  "server_TLSConfig (setStatus st srv) = server_TLSConfig srv"
  by (simp_all add: setStatus_def Let_def split: option.splits)

text \<open>
  Claim C4. \<^verbatim>\<open>StartHTTP\<close> and \<^verbatim>\<open>StartHTTPS\<close> return their already-active error exactly when the
  status is not \<open>Stopped\<close>, and then leave the server as it was; \<^verbatim>\<open>StartHTTPS\<close> on a stopped
  server without TLS material fails and leaves the server as it was; an accepted start
  returns no error with the status \<open>Starting\<close> and the goroutine spawned, and it is the two
  critical sections of the goroutine that set \<open>Running\<close> and later \<open>Stopped\<close>.
\<close>

theorem start_contract:
  "((\<exists>e. fst (StartHTTP srv) = Some (AlreadyRunningOrStarting e)) \<longleftrightarrow> status srv \<noteq> Stopped) \<and>
   ((\<exists>e. fst (StartHTTPS srv) = Some (AlreadyRunning e)) \<longleftrightarrow> status srv \<noteq> Stopped) \<and>
   (fst (StartHTTP srv) \<noteq> None \<longleftrightarrow> status srv \<noteq> Stopped) \<and>
   (status srv \<noteq> Stopped \<longrightarrow> snd (StartHTTP srv) = srv \<and> snd (StartHTTPS srv) = srv) \<and>
   (status srv = Stopped \<and> server_TLSConfig srv = None \<longrightarrow>
      StartHTTPS srv = (Some NoCertificate, srv)) \<and>
   (status srv = Stopped \<longrightarrow>
      fst (StartHTTP srv) = None \<and>
      status (snd (StartHTTP srv)) = Starting \<and>
      loop (snd (StartHTTP srv)) = Spawned HTTP \<and>
      status (loop_begin (snd (StartHTTP srv))) = Running \<and>
      status (loop_exit (loop_begin (snd (StartHTTP srv)))) = Stopped) \<and>
   (status srv = Stopped \<and> server_TLSConfig srv \<noteq> None \<longrightarrow>
      fst (StartHTTPS srv) = None \<and>
      status (snd (StartHTTPS srv)) = Starting \<and>
      loop (snd (StartHTTPS srv)) = Spawned HTTPS \<and>
      status (loop_begin (snd (StartHTTPS srv))) = Running \<and>
      status (loop_exit (loop_begin (snd (StartHTTPS srv)))) = Stopped)"
  by (simp add: StartHTTP_def StartHTTPS_def status_def loop_begin_def loop_exit_def
        setStatus_fields)

theorem start_contract_witness:
  "status (new_impl ()) = Stopped \<and> server_TLSConfig (new_impl ()) = None \<and>
   fst (StartHTTP (new_impl ())) = None \<and>
   status (snd (StartHTTP (new_impl ()))) = Starting \<and>
   status (loop_begin (snd (StartHTTP (new_impl ())))) = Running \<and>
   StartHTTPS (new_impl ()) = (Some NoCertificate, new_impl ()) \<and>
   status (snd (StartHTTPS ((new_impl ())\<lparr>server_TLSConfig := Some ''cert''\<rparr>))) = Starting \<and>
   status (snd (StartHTTP (new_impl ()))) \<noteq> Stopped \<and>
   snd (StartHTTP (snd (StartHTTP (new_impl ())))) = snd (StartHTTP (new_impl ())) \<and>
   fst (StartHTTPS (snd (StartHTTP (new_impl ())))) = Some (AlreadyRunning ''http://'')"
  using start_contract [of "new_impl ()"]
        start_contract [of "(new_impl ())\<lparr>server_TLSConfig := Some ''cert''\<rparr>"]
        start_contract [of "snd (StartHTTP (new_impl ()))"]
  by (simp add: new_impl_def status_def StartHTTP_def StartHTTPS_def setStatus_def Endpoint_def)

text \<open>
  Claim C5. \<^verbatim>\<open>Stop\<close> returns its already-stopped error exactly when the status is \<open>Stopped\<close>.
  It never writes the status (and so never calls the listener): on a server that is not
  stopped it only calls \<^verbatim>\<open>Shutdown\<close> with the shutdown timeout and returns no error. Of all
  the steps of the server, only the exit of the accept loop takes a status that is not
  \<open>Stopped\<close> to \<open>Stopped\<close>.
\<close>

theorem stop_contract:
  "((\<exists>e. fst (Stop srv) = Some (AlreadyStopped e)) \<longleftrightarrow> status srv = Stopped) \<and>
   (fst (Stop srv) \<noteq> None \<longleftrightarrow> status srv = Stopped) \<and>
   serverStatus (snd (Stop srv)) = serverStatus srv \<and>
   notified (snd (Stop srv)) = notified srv \<and>
   (status srv = Stopped \<longrightarrow> snd (Stop srv) = srv) \<and>
   (status srv \<noteq> Stopped \<longrightarrow>
      fst (Stop srv) = None \<and>
      snd (Stop srv) = srv\<lparr>shutdowns := shutdowns srv @ [shutdownTimeout srv]\<rparr>) \<and>
   (\<forall>a. serverStatus srv \<noteq> Stopped \<and> serverStatus (step a srv) = Stopped \<longrightarrow> a = LoopExit)"
proof -
  have "a = LoopExit" if "serverStatus srv \<noteq> Stopped" "serverStatus (step a srv) = Stopped" for a
    using that
    by (cases a)
       (auto simp: StartHTTP_def StartHTTPS_def Stop_def status_def loop_begin_def
          setStatus_fields split: accept_loop.splits if_splits)
  then show ?thesis
    by (simp add: Stop_def status_def)
qed

theorem stop_contract_witness:
  "status (new_impl ()) = Stopped \<and>
   fst (Stop (new_impl ())) = Some (AlreadyStopped ''http://'') \<and>
   status (snd (StartHTTP (new_impl ()))) \<noteq> Stopped \<and>
   fst (Stop (snd (StartHTTP (new_impl ())))) = None \<and>
   serverStatus (snd (Stop (snd (StartHTTP (new_impl ()))))) = Starting \<and>
   shutdowns (snd (Stop (snd (StartHTTP (new_impl ()))))) = [10000000000] \<and>
   serverStatus (loop_begin (snd (StartHTTP (new_impl ())))) \<noteq> Stopped \<and>
   serverStatus (step LoopExit (loop_begin (snd (StartHTTP (new_impl ()))))) = Stopped"
  using stop_contract [of "new_impl ()"]
        stop_contract [of "snd (StartHTTP (new_impl ()))"]
        stop_contract [of "loop_begin (snd (StartHTTP (new_impl ())))"]
  by (simp add: new_impl_def status_def StartHTTP_def Stop_def setStatus_def Endpoint_def
        loop_begin_def loop_exit_def DefaultShutdownTimeout_def)

text \<open>
  Claim C9. With an address that \<^verbatim>\<open>To4\<close> accepts, \<^verbatim>\<open>ServerIP\<close> on a server whose address has no
  colon returns no error value: it faults, reading index 1 of the one piece \<^verbatim>\<open>strings.Split\<close>
  returned. So does \<^verbatim>\<open>New\<close> with \<^verbatim>\<open>ServerIP\<close> as its only option, where the address is still
  empty. When the address has a colon, \<^verbatim>\<open>ServerIP\<close> succeeds and keeps the second piece as the
  port, as it does in \<^verbatim>\<open>New\<close> after a \<^verbatim>\<open>ServerAddress\<close> with a colon.
\<close>

theorem ServerIP_needs_port:
  "To4 ip \<noteq> None \<longrightarrow>
     (CHR '':'' \<notin> set (server_Addr srv) \<longrightarrow> ServerIP ip srv = Inl (IndexOutOfRange 1 1)) \<and>
     New handler [ServerIP ip] = Inl (IndexOutOfRange 1 1) \<and>
     (CHR '':'' \<in> set (server_Addr srv) \<longrightarrow>
        ServerIP ip srv =
          Inr (None, srv\<lparr>server_Addr := dotted (the (To4 ip)) @ '':'' @
                                            Split (server_Addr srv) CHR '':'' ! 1\<rparr>)) \<and>
     (CHR '':'' \<in> set address \<longrightarrow>
        New handler [ServerAddress address, ServerIP ip] =
          Inr (Some ((new_impl handler)\<lparr>server_Addr := dotted (the (To4 ip)) @ '':'' @
                                                          Split address CHR '':'' ! 1\<rparr>), None))"
proof (intro impI conjI)
  assume v4: "To4 ip \<noteq> None"
  then obtain p4 where p4: "To4 ip = Some p4" by auto
  show "ServerIP ip srv = Inl (IndexOutOfRange 1 1)" if "CHR '':'' \<notin> set (server_Addr srv)"
    using that p4 by (simp add: ServerIP_def index_def Split_no_sep)
  show "New handler [ServerIP ip] = Inl (IndexOutOfRange 1 1)"
    using p4 by (simp add: New_def new_impl_def ServerIP_def index_def)
  show "ServerIP ip srv =
          Inr (None, srv\<lparr>server_Addr := dotted (the (To4 ip)) @ '':'' @
                                            Split (server_Addr srv) CHR '':'' ! 1\<rparr>)"
    if "CHR '':'' \<in> set (server_Addr srv)"
    using Split_sep_length [OF that] p4 by (simp add: ServerIP_def index_def)
  show "New handler [ServerAddress address, ServerIP ip] =
          Inr (Some ((new_impl handler)\<lparr>server_Addr := dotted (the (To4 ip)) @ '':'' @
                                                          Split address CHR '':'' ! 1\<rparr>), None)"
    if "CHR '':'' \<in> set address"
    using Split_sep_length [OF that] p4
    by (simp add: New_def ServerAddress_def ServerIP_def index_def)
qed

theorem ServerIP_needs_port_witness:
  "To4 [10, 0, 0, 1] \<noteq> None \<and>
   CHR '':'' \<notin> set (server_Addr (new_impl ())) \<and>
   ServerIP [10, 0, 0, 1] (new_impl ()) = Inl (IndexOutOfRange 1 1) \<and>
   CHR '':'' \<in> set (server_Addr ((new_impl ())\<lparr>server_Addr := ''0.0.0.0:8080''\<rparr>)) \<and>
   ServerIP [10, 0, 0, 1] ((new_impl ())\<lparr>server_Addr := ''0.0.0.0:8080''\<rparr>) =
     Inr (None, (new_impl ())\<lparr>server_Addr := ''10.0.0.1:8080''\<rparr>) \<and>
   New () [ServerAddress ''0.0.0.0:8080'', ServerIP [10, 0, 0, 1]] =
     Inr (Some ((new_impl ())\<lparr>server_Addr := ''10.0.0.1:8080''\<rparr>), None)"
  using ServerIP_needs_port [of "[10, 0, 0, 1]" "new_impl ()" "()" "''0.0.0.0:8080''"]
        ServerIP_needs_port
          [of "[10, 0, 0, 1]" "(new_impl ())\<lparr>server_Addr := ''0.0.0.0:8080''\<rparr>" "()" "''0.0.0.0:8080''"]
  by (simp add: To4_def new_impl_def dotted_def)

text \<open>
  Claim C10. \<^verbatim>\<open>Endpoint\<close> is \<^verbatim>\<open>"http://"\<close> followed by the address of the server, whatever
  the rest of the server is: also when TLS material is configured, after \<^verbatim>\<open>StartHTTPS\<close>, and
  while the server started by \<^verbatim>\<open>StartHTTPS\<close> is running.
\<close>

theorem endpoint_scheme:
  "Endpoint srv = ''http://'' @ server_Addr srv \<and>
   Endpoint (srv\<lparr>server_TLSConfig := Some cer\<rparr>) = ''http://'' @ server_Addr srv \<and>
   Endpoint (snd (StartHTTPS srv)) = ''http://'' @ server_Addr srv \<and>
   Endpoint (loop_begin (snd (StartHTTPS srv))) = ''http://'' @ server_Addr srv"
  by (simp add: Endpoint_def StartHTTPS_def loop_begin_def setStatus_fields
        split: accept_loop.splits)

theorem endpoint_scheme_witness:
  "Endpoint (loop_begin (snd (StartHTTPS
      ((new_impl ())\<lparr>server_Addr := ''0.0.0.0:8443'', server_TLSConfig := Some ''cert''\<rparr>)))) =
   ''http://0.0.0.0:8443'' \<and>
   status (loop_begin (snd (StartHTTPS
      ((new_impl ())\<lparr>server_Addr := ''0.0.0.0:8443'', server_TLSConfig := Some ''cert''\<rparr>)))) =
   Running"
  using endpoint_scheme
          [of "(new_impl ())\<lparr>server_Addr := ''0.0.0.0:8443'', server_TLSConfig := Some ''cert''\<rparr>"]
  by (simp add: new_impl_def StartHTTPS_def status_def loop_begin_def setStatus_def)

section \<open>Properties of route normalisation\<close>

lemma updateRoutes_prefix:
  "n \<le> length routes \<Longrightarrow>
   foldl (updateRoutes_body routes) routes [0..<n] =
   map (\<lambda>r. if Method r = [] then r\<lparr>Method := ''GET''\<rparr> else r) (take n routes) @ drop n routes"
proof (induction n)
  case 0
  then show ?case by simp
next
  case (Suc n)
  then have n: "n < length routes" by simp
  have d: "drop n routes = routes ! n # drop (Suc n) routes"
    using n by (simp add: Cons_nth_drop_Suc)
  have t: "take (Suc n) routes = take n routes @ [routes ! n]"
    using n by (simp add: take_Suc_conv_app_nth)
  show ?case
    using Suc n
    by (simp add: d t updateRoutes_body_def Let_def list_update_append nth_append
          slice_all_def reslice_def)
qed

lemma updateRoutes_map:
  "updateRoutes routes = map (\<lambda>r. if Method r = [] then r\<lparr>Method := ''GET''\<rparr> else r) routes"
  using updateRoutes_prefix [of "length routes" routes] by (simp add: updateRoutes_def)

text \<open>
  Claim C7. \<^verbatim>\<open>updateRoutes\<close> returns one route for each route of the table; its method is
  \<^verbatim>\<open>GET\<close> when the method of the input route is empty and the method of the input route
  otherwise, and its name, path and handler are those of the input route.
\<close>

theorem updateRoutes_method:
  "length (updateRoutes routes) = length routes \<and>
   (\<forall>i < length routes.
      Method (updateRoutes routes ! i) =
        (if Method (routes ! i) = [] then ''GET'' else Method (routes ! i)) \<and>
      Name (updateRoutes routes ! i) = Name (routes ! i) \<and>
      Path (updateRoutes routes ! i) = Path (routes ! i) \<and>
      Handler (updateRoutes routes ! i) = Handler (routes ! i))"
  by (simp add: updateRoutes_map)

theorem updateRoutes_method_witness:
  "Method (updateRoutes [caller_route, caller_route\<lparr>Method := ''POST''\<rparr>] ! 0) = ''GET'' \<and>
   Method (updateRoutes [caller_route, caller_route\<lparr>Method := ''POST''\<rparr>] ! 1) = ''POST'' \<and>
   Name (updateRoutes [caller_route, caller_route\<lparr>Method := ''POST''\<rparr>] ! 0) = ''HealthCheck'' \<and>
   Path (updateRoutes [caller_route, caller_route\<lparr>Method := ''POST''\<rparr>] ! 0) = ''healthcheck'' \<and>
   Handler (updateRoutes [caller_route, caller_route\<lparr>Method := ''POST''\<rparr>] ! 1) = HealthCheck"
  using updateRoutes_method [of "[caller_route, caller_route\<lparr>Method := ''POST''\<rparr>]"]
  by (simp add: caller_route_def)

text \<open>
  The lists of a normalised route are the slices of the input route: \<^verbatim>\<open>s[:]\<close> is a window on
  the same array, from the same offset and of the same length.
\<close>

lemma updateRoutes_same_slices:
  "i < length routes \<Longrightarrow>
   Include (updateRoutes routes ! i) = Include (routes ! i) \<and>
   Exclude (updateRoutes routes ! i) = Exclude (routes ! i)"
  by (simp add: updateRoutes_map)

text \<open>
  Claim C2. The claim is that the lists of a normalised route share no storage with the
  slices of the caller. They do: for the route whose \<^verbatim>\<open>Include\<close> is \<^verbatim>\<open>["auth"]\<close> and whose
  \<^verbatim>\<open>Exclude\<close> is \<^verbatim>\<open>["logger"]\<close>, after \<^verbatim>\<open>updateRoutes\<close> the caller's \<^verbatim>\<open>Include[0] = "admin"\<close> changes
  the \<^verbatim>\<open>Include\<close> of the normalised route to \<^verbatim>\<open>["admin"]\<close>, and likewise for \<^verbatim>\<open>Exclude\<close>.
\<close>

theorem updateRoutes_shares_storage:
  "elems caller_heap (Include (updateRoutes [caller_route] ! 0)) = [''auth''] \<and>
   store caller_heap (Include caller_route) 0 ''admin'' = Inr (caller_heap(1 := [''admin''])) \<and>
   elems (caller_heap(1 := [''admin''])) (Include (updateRoutes [caller_route] ! 0)) = [''admin''] \<and>
   elems caller_heap (Exclude (updateRoutes [caller_route] ! 0)) = [''logger''] \<and>
   store caller_heap (Exclude caller_route) 0 ''none'' = Inr (caller_heap(2 := [''none''])) \<and>
   elems (caller_heap(2 := [''none''])) (Exclude (updateRoutes [caller_route] ! 0)) = [''none'']"
  by (simp add: updateRoutes_def updateRoutes_body_def caller_route_def caller_heap_def
        elems_def store_def slice_all_def reslice_def)

section \<open>Properties of the gatekeeper\<close>

text \<open>
  Claim C6. When the predicate of a gatekeeper is false for the request, the result does
  not depend on the continuation and a continuation that records its call is not recorded;
  the response writer receives the configured content type, then the configured status
  code, then the configured body if it is not empty, and nothing else, so the bytes written
  are the configured body. When the predicate is true, the result is the result of the
  continuation on the unchanged world and request, and a continuation that records its
  call is recorded once.
\<close>

theorem gatekeeper_contract:
  "(\<not> gatekeeper g r \<longrightarrow>
      serviceGatekeeper_ServeHTTP g w r next = serviceGatekeeper_ServeHTTP g w r (\<lambda>w r. w) \<and>
      calls (serviceGatekeeper_ServeHTTP g w r probe) = calls w \<and>
      rw (serviceGatekeeper_ServeHTTP g w r next) =
        rw w @ [HeaderSet ''Content-Type'' (contentType g), WriteHeader (responseCode g)] @
        (if responseMessage g = [] then [] else [Write (responseMessage g)]) \<and>
      concat (map (\<lambda>c. case c of Write b \<Rightarrow> b | _ \<Rightarrow> [])
                (drop (length (rw w)) (rw (serviceGatekeeper_ServeHTTP g w r next)))) =
        responseMessage g) \<and>
   (gatekeeper g r \<longrightarrow>
      serviceGatekeeper_ServeHTTP g w r next = next w r \<and>
      serviceGatekeeper_ServeHTTP g w r probe = w\<lparr>calls := calls w @ [''next'']\<rparr>)"
  by (simp add: serviceGatekeeper_ServeHTTP_def Let_def write_call_def log_line_def probe_def)

theorem gatekeeper_contract_witness:
  "\<not> gatekeeper closed_gate ((get_request ''/v1/x'')\<lparr>reqMethod := ''POST''\<rparr>) \<and>
   serviceGatekeeper_ServeHTTP closed_gate fresh
       ((get_request ''/v1/x'')\<lparr>reqMethod := ''POST''\<rparr>) probe =
     \<lparr>rw = [HeaderSet ''Content-Type'' ''text/plain'', WriteHeader 403, Write ''read only''],
      logs = [(LWarn, ''api request is not accepted: service is not available'')],
      calls = []\<rparr> \<and>
   gatekeeper closed_gate (get_request ''/v1/x'') \<and>
   serviceGatekeeper_ServeHTTP closed_gate fresh (get_request ''/v1/x'') probe =
     \<lparr>rw = [], logs = [], calls = [''next'']\<rparr>"
  using gatekeeper_contract
          [of closed_gate "(get_request ''/v1/x'')\<lparr>reqMethod := ''POST''\<rparr>" fresh probe]
        gatekeeper_contract [of closed_gate "get_request ''/v1/x''" fresh probe]
  by (simp add: closed_gate_def NewServiceGatekeeper_def ServiceGatekeeperResponseCode_def
        ServiceGatekeeperTextResponse_def get_request_def fresh_def probe_def
        serviceGatekeeper_ServeHTTP_def Let_def write_call_def log_line_def)

end
